theory Spec2Isabelle
  imports Main "HOL-Library.Word"
begin

section \<open>The store-side accumulator (db.py, aggregate\_arrays)\<close>

text \<open>
  A \<^verbatim>\<open>bigint\<close> is a signed 64-bit integer; an element of a \<^verbatim>\<open>bigint[]\<close> may be
  NULL (\<open>None\<close>). Arrays are one-dimensional with lower bound 1, as the driver sends a
  Python list. An addition whose sum does not fit 64 bits raises in the store; it does
  not wrap.
\<close>

type_synonym bigint = "64 word"
type_synonym bigint_array = "bigint option list"

datatype pg_error = Null_Loop_Bound | Bigint_Out_Of_Range

text \<open>\<^verbatim>\<open>array_length(x, 1)\<close> is NULL, not 0, for an empty array.\<close>

definition array_length :: "bigint_array \<Rightarrow> nat option" where
  "array_length x = (if x = [] then None else Some (length x))"

text \<open>\<^verbatim>\<open>a[i]\<close> for \<open>i \<ge> 1\<close>: NULL outside the array.\<close>

definition subscript :: "bigint_array \<Rightarrow> nat \<Rightarrow> bigint option" where
  "subscript a i = (if 1 \<le> i \<and> i \<le> length a then a ! (i - 1) else None)"

text \<open>\<^verbatim>\<open>a[i] := v\<close> for \<open>i \<ge> 1\<close>: past the end the array grows, the gap filled with NULL.\<close>

definition assign :: "bigint_array \<Rightarrow> nat \<Rightarrow> bigint option \<Rightarrow> bigint_array" where
  "assign a i v =
     (if i \<le> length a then a[i - 1 := v]
      else a @ replicate (i - 1 - length a) None @ [v])"

definition coalesce :: "bigint option \<Rightarrow> bigint \<Rightarrow> bigint option" where
  "coalesce a d = (case a of None \<Rightarrow> Some d | Some v \<Rightarrow> Some v)"

text \<open>\<^verbatim>\<open>a + b\<close> on bigint: NULL if an operand is NULL, an error if the sum overflows.\<close>

definition bigint_add :: "bigint option \<Rightarrow> bigint option \<Rightarrow> pg_error + bigint option" where
  "bigint_add a b =
     (case a of None \<Rightarrow> Inr None
      | Some u \<Rightarrow>
          (case b of None \<Rightarrow> Inr None
           | Some v \<Rightarrow>
               (if - (2 ^ 63) \<le> sint u + sint v \<and> sint u + sint v < 2 ^ 63
                then Inr (Some (u + v)) else Inl Bigint_Out_Of_Range)))"

text \<open>
  The body of the loop \<^verbatim>\<open>for i in 1 .. array_length(x, 1)\<close>, over the list of the
  indices still to visit: \<^verbatim>\<open>acc[i] := coalesce(acc[i], 0) + x[i]\<close>.
\<close>

primrec for_loop :: "bigint_array \<Rightarrow> nat list \<Rightarrow> bigint_array \<Rightarrow> pg_error + bigint_array" where
  "for_loop x [] acc = Inr acc"
| "for_loop x (i # rest) acc =
     (case bigint_add (coalesce (subscript acc i) 0) (subscript x i) of
        Inl e \<Rightarrow> Inl e
      | Inr s \<Rightarrow> for_loop x rest (assign acc i s))"

text \<open>
  \<^verbatim>\<open>aggregate_arrays(acc bigint[], x bigint[])\<close>. A FOR loop whose upper bound is NULL
  raises ("upper bound of FOR loop cannot be null"); the function is strict, so both
  arguments are arrays here.
\<close>

definition aggregate_arrays :: "bigint_array \<Rightarrow> bigint_array \<Rightarrow> pg_error + bigint_array" where
  "aggregate_arrays acc x =
     (case array_length x of
        None \<Rightarrow> Inl Null_Loop_Bound
      | Some n \<Rightarrow> for_loop x [1 ..< Suc n] acc)"

text \<open>
  The positional sum of two arrays with a missing position of the first read as zero,
  by recursion on the arrays: what the loop computes when \<open>x\<close> is not empty.
\<close>

fun positional_sum :: "bigint_array \<Rightarrow> bigint_array \<Rightarrow> pg_error + bigint_array" where
  "positional_sum acc [] = Inr acc"
| "positional_sum [] (v # vs) =
     (case bigint_add (Some 0) v of
        Inl e \<Rightarrow> Inl e
      | Inr s \<Rightarrow> (case positional_sum [] vs of Inl e \<Rightarrow> Inl e | Inr r \<Rightarrow> Inr (s # r)))"
| "positional_sum (a # as) (v # vs) =
     (case bigint_add (coalesce a 0) v of
        Inl e \<Rightarrow> Inl e
      | Inr s \<Rightarrow> (case positional_sum as vs of Inl e \<Rightarrow> Inl e | Inr r \<Rightarrow> Inr (s # r)))"

text \<open>
  The aggregate \<^verbatim>\<open>aggregate_histograms\<close>: state function \<^verbatim>\<open>aggregate_arrays\<close>, initial
  state \<^verbatim>\<open>'{}'\<close>, over the input values in order.
\<close>

primrec aggregate_from :: "bigint_array \<Rightarrow> bigint_array list \<Rightarrow> pg_error + bigint_array" where
  "aggregate_from st [] = Inr st"
| "aggregate_from st (v # vs) =
     (case aggregate_arrays st v of
        Inl e \<Rightarrow> Inl e
      | Inr st' \<Rightarrow> aggregate_from st' vs)"

definition aggregate_histograms :: "bigint_array list \<Rightarrow> pg_error + bigint_array" where
  "aggregate_histograms vs = aggregate_from [] vs"

section \<open>The store: partitions and the ledger of processed dates\<close>

text \<open>
  A dimension set is a JSON object with scalar values, sent as text by \<^verbatim>\<open>json.dumps\<close>
  and stored as \<^verbatim>\<open>jsonb\<close>: keys are unique and their order is immaterial. On such
  objects \<^verbatim>\<open>a @> b\<close> holds when every pair of \<open>b\<close> is a pair of \<open>a\<close>.
\<close>

datatype json = JString string | JBool bool

type_synonym jsonb = "string \<rightharpoonup> json"

definition jsonb_contains :: "jsonb \<Rightarrow> jsonb \<Rightarrow> bool" where
  "jsonb_contains a b = (b \<subseteq>\<^sub>m a)"

text \<open>
  A row of a partition table \<^verbatim>\<open>(id serial primary key, dimensions jsonb, histogram
  bigint[])\<close>. No statement reads the surrogate \<^verbatim>\<open>id\<close>; rows are kept in insertion
  order without it.
\<close>

record row =
  dimensions :: jsonb
  histogram :: bigint_array

text \<open>
  The store as \<^verbatim>\<open>create_tables()\<close> leaves it and the functions below change it. Schema
  public holds the table \<^verbatim>\<open>buildid_update_dates (tablename text primary key,
  submission_dates text[])\<close>, always there, whose rows are the field of that name, and
  the partition tables, by relation name, in the field \<open>tables\<close>. All of them are tables
  of one catalogue.
\<close>

record database =
  tables :: "string \<rightharpoonup> row list"
  buildid_update_dates :: "string \<rightharpoonup> string list"

text \<open>
  \<^verbatim>\<open>select exists (select 1 from information_schema.tables where table_schema =
  'public' and table_name = tablename)\<close>: the name is compared as text, and the ledger
  is a table like any partition.
\<close>

definition table_exists :: "database \<Rightarrow> string \<Rightarrow> bool" where
  "table_exists db name =
     (case tables db name of
        None \<Rightarrow> name = ''buildid_update_dates''
      | Some ts \<Rightarrow> True)"

text \<open>
  What a statement of the store can raise here; \<open>Unmodelled_Statement\<close> is no error of
  the store: it marks a statement that the model does not follow (see below).
\<close>

datatype store_error =
  Raised pg_error | Syntax_Error | Duplicate_Table string | Undefined_Table string
| Undefined_Column string | Undefined_Function | Unmodelled_Statement string

text \<open>
  How the parser of the store reads the text that the functions put in place of a table
  name. A letter or an underscore followed by letters, digits, underscores and dollar
  signs is one identifier: it names the relation whose name is the text in lower case,
  cut to 63 bytes (the text holds two underscores, so it is no reserved word). Any
  other text of these characters and semicolons cannot be parsed. A text with any
  other character (a quote, a dot, a blank, a parenthesis, a byte beyond ASCII) may be
  read as another name or as further statements, which the model does not follow.
\<close>

datatype reading = Relation string | Malformed | Unmodelled

definition downcase :: "char \<Rightarrow> char" where
  "downcase c =
     (case map_of (zip ''ABCDEFGHIJKLMNOPQRSTUVWXYZ'' ''abcdefghijklmnopqrstuvwxyz'') c of
        None \<Rightarrow> c
      | Some l \<Rightarrow> l)"

definition ident_start :: "char \<Rightarrow> bool" where
  "ident_start c = (c \<in> set ''ABCDEFGHIJKLMNOPQRSTUVWXYZabcdefghijklmnopqrstuvwxyz_'')"

definition ident_cont :: "char \<Rightarrow> bool" where
  "ident_cont c = (ident_start c \<or> c \<in> set ''0123456789$'')"

definition read_identifier :: "string \<Rightarrow> reading" where
  "read_identifier s =
     (case s of
        [] \<Rightarrow> Malformed
      | c # cs \<Rightarrow>
          (if ident_start c \<and> list_all ident_cont cs then Relation (take 63 (map downcase s))
           else if list_all (\<lambda>x. ident_cont x \<or> x = CHR '';'') s then Malformed
           else Unmodelled))"

text \<open>
  The store names the sequence and the indexes of a table itself, in the namespace of
  the tables: the last part of such a name, after an underscore, is \<^verbatim>\<open>seq\<close>,
  \<^verbatim>\<open>pkey\<close> or \<^verbatim>\<open>idx\<close> and digits. The model keeps no record of these names, so it
  does not follow the creation of a table with a name of this form.
\<close>

definition store_given_name :: "string \<Rightarrow> bool" where
  "store_given_name name =
     (let part = rev (takeWhile (\<lambda>c. c \<noteq> CHR ''_'') (rev name));
          label = rev (dropWhile (\<lambda>c. c \<in> set ''0123456789'') (rev part))
      in label = ''seq'' \<or> label = ''pkey'' \<or> label = ''idx'')"

text \<open>
  \<^verbatim>\<open>execute 'create table ' || tablename || '(id serial primary key, dimensions jsonb,
  histogram bigint[])'\<close> and \<^verbatim>\<open>execute 'create index on ' || tablename || ' using GIN
  (dimensions jsonb_path_ops)'\<close>.
\<close>

definition create_table :: "database \<Rightarrow> string \<Rightarrow> store_error + database" where
  "create_table db tablename =
     (case read_identifier tablename of
        Unmodelled \<Rightarrow> Inl (Unmodelled_Statement tablename)
      | Malformed \<Rightarrow> Inl Syntax_Error
      | Relation name \<Rightarrow>
          (if table_exists db name then Inl (Duplicate_Table name)
           else if store_given_name name then Inl (Unmodelled_Statement tablename)
           else Inr (db\<lparr>tables := (tables db)(name \<mapsto> [])\<rparr>)))"

text \<open>
  The \<^verbatim>\<open>update ... set histogram = (select aggregate_histograms(v) from (values (1,
  t.histogram), (2, $1)) ...) where t.dimensions @> $2 returning t.*\<close> of the upsert.
\<close>

primrec update_matching :: "row list \<Rightarrow> bigint_array \<Rightarrow> jsonb \<Rightarrow> pg_error + row list" where
  "update_matching [] h d = Inr []"
| "update_matching (t # ts) h d =
     (if jsonb_contains (dimensions t) d then
        (case aggregate_histograms [histogram t, h] of
           Inl e \<Rightarrow> Inl e
         | Inr v \<Rightarrow>
             (case update_matching ts h d of
                Inl e \<Rightarrow> Inl e
              | Inr ts' \<Rightarrow> Inr (t\<lparr>histogram := v\<rparr> # ts')))
      else
        (case update_matching ts h d of
           Inl e \<Rightarrow> Inl e
         | Inr ts' \<Rightarrow> Inr (t # ts')))"

text \<open>
  The whole statement: \<^verbatim>\<open>with upsert as (update ...) insert into T (dimensions,
  histogram) select * from (values ($2, $1)) as t where not exists (select 1 from
  upsert)\<close>, with \<open>$1\<close> the histogram and \<open>$2\<close> the dimensions.
\<close>

definition upsert :: "row list \<Rightarrow> bigint_array \<Rightarrow> jsonb \<Rightarrow> pg_error + row list" where
  "upsert ts h d =
     (case update_matching ts h d of
        Inl e \<Rightarrow> Inl e
      | Inr ts' \<Rightarrow>
          (if list_ex (\<lambda>t. jsonb_contains (dimensions t) d) ts then Inr ts'
           else Inr (ts' @ [\<lparr>dimensions = d, histogram = h\<rparr>])))"

text \<open>
  The \<^verbatim>\<open>execute ... using histogram, dimensions\<close> of the upsert, on the relation that
  the text names. The ledger has no column \<^verbatim>\<open>histogram\<close>.
\<close>

definition upsert_table ::
  "database \<Rightarrow> string \<Rightarrow> bigint_array \<Rightarrow> jsonb \<Rightarrow> store_error + database" where
  "upsert_table db tablename h d =
     (case read_identifier tablename of
        Unmodelled \<Rightarrow> Inl (Unmodelled_Statement tablename)
      | Malformed \<Rightarrow> Inl Syntax_Error
      | Relation name \<Rightarrow>
          (if name = ''buildid_update_dates'' then Inl (Undefined_Column ''histogram'')
           else
             (case tables db name of
                None \<Rightarrow> Inl (Undefined_Table name)
              | Some ts \<Rightarrow>
                  (case upsert ts h d of
                     Inl e \<Rightarrow> Inl (Raised e)
                   | Inr ts' \<Rightarrow> Inr (db\<lparr>tables := (tables db)(name \<mapsto> ts')\<rparr>)))))"

text \<open>
  \<^verbatim>\<open>add_buildid_metric(channel, version, buildid, dimensions, histogram)\<close>. A statement
  that raises undoes what the call did before it.
\<close>

definition add_buildid_metric ::
  "database \<Rightarrow> string \<Rightarrow> string \<Rightarrow> string \<Rightarrow> jsonb \<Rightarrow> bigint_array \<Rightarrow> store_error + database" where
  "add_buildid_metric db channel version buildid dims hist =
     (let tablename = channel @ ''_'' @ version @ ''_'' @ buildid
      in if \<not> table_exists db tablename then
           (case create_table db tablename of
              Inl e \<Rightarrow> Inl e
            | Inr db1 \<Rightarrow> upsert_table db1 tablename hist dims)
         else upsert_table db tablename hist dims)"

text \<open>
  The texts that the store reads back as they are written and that name a partition: a
  lower-case identifier of at most 63 bytes, not the ledger, not of the form of a name
  that the store gives.
\<close>

definition partition_identifier :: "string \<Rightarrow> bool" where
  "partition_identifier s =
     (read_identifier s = Relation s \<and> s \<noteq> ''buildid_update_dates'' \<and> \<not> store_given_name s)"

text \<open>
  \<^verbatim>\<open>was_buildid_processed(channel, version, buildid, submission_date)\<close>: the answer and
  the store after the call.
\<close>

definition was_buildid_processed ::
  "database \<Rightarrow> string \<Rightarrow> string \<Rightarrow> string \<Rightarrow> string \<Rightarrow> bool \<times> database" where
  "was_buildid_processed db channel version buildid submission_date =
     (let table_name = channel @ ''_'' @ version @ ''_'' @ buildid;
          was_processed =
            (case buildid_update_dates db table_name of
               None \<Rightarrow> False
             | Some submission_dates \<Rightarrow> submission_date \<in> set submission_dates)
      in if was_processed then (was_processed, db)
         else (was_processed,
               db\<lparr>buildid_update_dates := (buildid_update_dates db)(table_name \<mapsto>
                    (case buildid_update_dates db table_name of
                       None \<Rightarrow> [submission_date]
                     | Some submission_dates \<Rightarrow> submission_dates @ [submission_date]))\<rparr>))"

section \<open>The coordinator (db.py, the Python functions)\<close>

text \<open>
  What a Python call can raise here: \<^verbatim>\<open>KeyError\<close>, an error of the store reported by
  the driver, or any other exception of the histogram library.
\<close>

datatype py_exception = KeyError | Database_Error store_error | Other_Exception string

text \<open>
  The class \<^verbatim>\<open>Histogram\<close> belongs to the library moztelemetry: a parameter, from the
  metric name, the raw values and the revision to the expanded values or an exception.
\<close>

type_synonym histogram_service = "string \<Rightarrow> int list \<Rightarrow> string \<Rightarrow> py_exception + int list"

definition revision_map :: "(string \<times> string) list" where
  "revision_map =
     [(''nightly'', ''https://hg.mozilla.org/mozilla-central/rev/tip''),
      (''aurora'', ''https://hg.mozilla.org/releases/mozilla-aurora/rev/tip''),
      (''beta'', ''https://hg.mozilla.org/releases/mozilla-beta/rev/tip''),
      (''release'', ''https://hg.mozilla.org/releases/mozilla-release/rev/tip'')]"

text \<open>
  \<^verbatim>\<open>_get_complete_histogram(channel, metric, values)\<close>; \<^verbatim>\<open>map(int, list(histogram))\<close>
  leaves a list of integers as it is.
\<close>

definition get_complete_histogram ::
  "histogram_service \<Rightarrow> string \<Rightarrow> string \<Rightarrow> int list \<Rightarrow> py_exception + int list" where
  "get_complete_histogram Histogram channel metric vals =
     (let revision = (case map_of revision_map channel of None \<Rightarrow> ''nightly'' | Some r \<Rightarrow> r)
      in if take 7 metric = ''SIMPLE_'' then Inr vals
         else Histogram metric vals revision)"

text \<open>
  A payload is a dictionary with the keys \<^verbatim>\<open>"histogram"\<close> and \<^verbatim>\<open>"count"\<close>; \<open>None\<close>
  is an absent key, whose lookup raises \<^verbatim>\<open>KeyError\<close>.
\<close>

record payload =
  payload_histogram :: "int list option"
  payload_count :: "int option"

text \<open>
  The expression of the \<^verbatim>\<open>try\<close> block:
  \<^verbatim>\<open>_get_complete_histogram(channel, metric, payload["histogram"]) + [payload["count"]]\<close>.
\<close>

definition complete_with_count ::
  "histogram_service \<Rightarrow> string \<Rightarrow> string \<Rightarrow> payload \<Rightarrow> py_exception + int list" where
  "complete_with_count Histogram channel metric p =
     (case payload_histogram p of
        None \<Rightarrow> Inl KeyError
      | Some vals \<Rightarrow>
          (case get_complete_histogram Histogram channel metric vals of
             Inl e \<Rightarrow> Inl e
           | Inr h \<Rightarrow>
               (case payload_count p of
                  None \<Rightarrow> Inl KeyError
                | Some c \<Rightarrow> Inr (h @ [c]))))"

text \<open>
  The list of Python integers reaches the store as a \<^verbatim>\<open>bigint[]\<close> only if each fits
  64 bits; otherwise the driver sends an array of \<^verbatim>\<open>numeric\<close>, for which the store has
  no function \<^verbatim>\<open>add_buildid_metric\<close>.
\<close>

primrec to_bigint_array :: "int list \<Rightarrow> store_error + bigint_array" where
  "to_bigint_array [] = Inr []"
| "to_bigint_array (n # ns) =
     (if - (2 ^ 63) \<le> n \<and> n < 2 ^ 63 then
        (case to_bigint_array ns of
           Inl e \<Rightarrow> Inl e
         | Inr ws \<Rightarrow> Inr (Some (word_of_int n) # ws))
      else Inl Undefined_Function)"

text \<open>
  \<^verbatim>\<open>cursor.execute("select add_buildid_metric(%s, %s, %s, %s, %s)", ...)\<close>
\<close>

definition execute_add_buildid_metric ::
  "database \<Rightarrow> string \<Rightarrow> string \<Rightarrow> string \<Rightarrow> jsonb \<Rightarrow> int list \<Rightarrow> py_exception + database" where
  "execute_add_buildid_metric db channel version build_id dims hist =
     (case to_bigint_array hist of
        Inl e \<Rightarrow> Inl (Database_Error e)
      | Inr h \<Rightarrow>
          (case add_buildid_metric db channel version build_id dims h of
             Inl e \<Rightarrow> Inl (Database_Error e)
           | Inr db' \<Rightarrow> Inr db'))"

text \<open>\<^verbatim>\<open>label.replace("'", "")\<close>\<close>

definition remove_quotes :: "string \<Rightarrow> string" where
  "remove_quotes label = filter (\<lambda>c. c \<noteq> CHR 0x27) label"

text \<open>
  The head of the loop body: the label loses its quotes, then the three assignments
  \<^verbatim>\<open>dimensions["metric"] = metric\<close>, \<^verbatim>\<open>dimensions["label"] = label\<close> and
  \<^verbatim>\<open>dimensions["child"] = child\<close>.
\<close>

definition metric_dimensions :: "jsonb \<Rightarrow> string \<Rightarrow> string \<Rightarrow> bool \<Rightarrow> jsonb" where
  "metric_dimensions dims metric label child =
     (let label' = remove_quotes label
      in dims(''metric'' \<mapsto> JString metric, ''label'' \<mapsto> JString label',
              ''child'' \<mapsto> JBool child))"

text \<open>
  The loop of \<^verbatim>\<open>_upsert_aggregate\<close> over \<^verbatim>\<open>metrics.iteritems()\<close>, in the order of the
  iteration. The dictionary \<^verbatim>\<open>dimensions\<close> is updated in place and lives on from one
  round to the next.
\<close>

type_synonym metric_key = "string \<times> string \<times> bool"

fun upsert_metrics ::
  "histogram_service \<Rightarrow> string \<Rightarrow> string \<Rightarrow> string \<Rightarrow> jsonb \<Rightarrow> database \<Rightarrow>
   (metric_key \<times> payload) list \<Rightarrow> py_exception + database" where
  "upsert_metrics Histogram channel version build_id dims db [] = Inr db"
| "upsert_metrics Histogram channel version build_id dims db (((metric, label, child), p) # rest) =
     (let dims' = metric_dimensions dims metric label child
      in case complete_with_count Histogram channel metric p of
           Inl e \<Rightarrow>
             (if e = KeyError
              then upsert_metrics Histogram channel version build_id dims' db rest
              else Inl e)
         | Inr hist \<Rightarrow>
             (case execute_add_buildid_metric db channel version build_id dims' hist of
                Inl e \<Rightarrow> Inl e
              | Inr db' \<Rightarrow> upsert_metrics Histogram channel version build_id dims' db' rest))"

text \<open>The key of an aggregate, a tuple of nine strings.\<close>

record aggregate_key =
  key_submission_date :: string
  key_channel :: string
  key_version :: string
  key_build_id :: string
  key_application :: string
  key_architecture :: string
  key_revision :: string
  key_os :: string
  key_os_version :: string

text \<open>\<^verbatim>\<open>_upsert_aggregate(cursor, aggregate)\<close>\<close>

definition upsert_aggregate ::
  "histogram_service \<Rightarrow> database \<Rightarrow> aggregate_key \<times> (metric_key \<times> payload) list \<Rightarrow>
   py_exception + database" where
  "upsert_aggregate Histogram db aggregate =
     (let k = fst aggregate; metrics = snd aggregate;
          dims = [''application'' \<mapsto> JString (key_application k),
                  ''architecture'' \<mapsto> JString (key_architecture k),
                  ''revision'' \<mapsto> JString (key_revision k),
                  ''os'' \<mapsto> JString (key_os k),
                  ''os_version'' \<mapsto> JString (key_os_version k)]
      in upsert_metrics Histogram (key_channel k) (key_version k) (key_build_id k) dims db metrics)"

text \<open>The loop \<^verbatim>\<open>for aggregate in aggregates[1]\<close> of \<^verbatim>\<open>_upsert_aggregates\<close>.\<close>

primrec upsert_each ::
  "histogram_service \<Rightarrow> database \<Rightarrow> (aggregate_key \<times> (metric_key \<times> payload) list) list \<Rightarrow>
   py_exception + database" where
  "upsert_each Histogram db [] = Inr db"
| "upsert_each Histogram db (a # rest) =
     (case upsert_aggregate Histogram db a of
        Inl e \<Rightarrow> Inl e
      | Inr db' \<Rightarrow> upsert_each Histogram db' rest)"

text \<open>
  \<^verbatim>\<open>_upsert_aggregates(aggregates, dry_run)\<close>, on a connection without autocommit. The
  function returns \<^verbatim>\<open>None\<close> on every path; the model returns the path taken, or the
  exception that left the function, with the store as it stands afterwards: what was
  written is kept only by \<^verbatim>\<open>conn.commit()\<close>.
\<close>

datatype outcome = AlreadyProcessed | Committed | RolledBack

definition upsert_aggregates ::
  "histogram_service \<Rightarrow> database \<Rightarrow>
   (string \<times> string \<times> string \<times> string) \<times> (aggregate_key \<times> (metric_key \<times> payload) list) list \<Rightarrow>
   bool \<Rightarrow> database \<times> (py_exception + outcome)" where
  "upsert_aggregates Histogram db aggregates dry_run =
     (case fst aggregates of
        (submission_date, channel, version, build_id) \<Rightarrow>
          (case was_buildid_processed db channel version build_id submission_date of
             (processed, db1) \<Rightarrow>
               (if processed then (db, Inr AlreadyProcessed)
                else
                  (case upsert_each Histogram db1 (snd aggregates) of
                     Inl e \<Rightarrow> (db, Inl e)
                   | Inr db2 \<Rightarrow>
                       (if dry_run then (db, Inr RolledBack) else (db2, Inr Committed))))))"

section \<open>Probe resolution and typed merge (class Scalar)\<close>

text \<open>
  Modelled from the spec: the metric kinds of a probe definition (section 3). The class
  \<^verbatim>\<open>Scalar\<close> of \<^verbatim>\<open>mozaggregator/scalar.py\<close> is not among the sources; only its tests
  (\<^verbatim>\<open>tests/test_scalar.py\<close>) are.
\<close>

datatype kind =
  Unsigned_Integer | String_Kind | Boolean_Kind
| Histogram_Linear | Histogram_Exponential | Histogram_Boolean | Histogram_Flag | Histogram_Count

text \<open>
  Modelled from the spec: a probe definition, its kind and the bucket count that the
  expansion of a payload needs (section 3).
\<close>

record probe_definition =
  probe_kind :: kind
  bucket_count :: nat

text \<open>Modelled from the spec: the two failures of probe resolution (section 4.1).\<close>

datatype resolve_error = DefinitionNotFound | ConflictingSource

text \<open>
  Modelled from the spec: the state of the registry client, its cache of definitions by
  (metric name, resolved revision or url) and the locators it has fetched over the
  network so far (section 4.1).
\<close>

record registry_client =
  cache :: "string \<times> string \<rightharpoonup> probe_definition"
  fetched :: "string list"

text \<open>
  Modelled from the spec: the source a request resolves to, in the order explicit
  registry url, explicit revision, channel-to-revision table, nightly (section 4.1).
\<close>

definition resolved_source :: "string option \<Rightarrow> string option \<Rightarrow> string option \<Rightarrow> string" where
  "resolved_source channel revision_override registry_url_override =
     (case registry_url_override of
        Some url \<Rightarrow> url
      | None \<Rightarrow>
          (case revision_override of
             Some revision \<Rightarrow> revision
           | None \<Rightarrow>
               (case channel of
                  None \<Rightarrow> ''https://hg.mozilla.org/mozilla-central/rev/tip''
                | Some c \<Rightarrow>
                    (case map_of revision_map c of
                       None \<Rightarrow> ''https://hg.mozilla.org/mozilla-central/rev/tip''
                     | Some revision \<Rightarrow> revision))))"

text \<open>
  Modelled from the spec: \<^verbatim>\<open>resolve(metric_name, channel, revision_override,
  registry_url_override)\<close> of section 4.1 (the constructor of \<^verbatim>\<open>Scalar\<close>, absent from
  the sources). The registry behind the network is the parameter \<open>registry\<close>. A request
  with both a channel and a revision is refused first; a cache hit makes no fetch.
\<close>

definition resolve ::
  "(string \<Rightarrow> string \<rightharpoonup> probe_definition) \<Rightarrow> registry_client \<Rightarrow> string \<Rightarrow>
   string option \<Rightarrow> string option \<Rightarrow> string option \<Rightarrow>
   (resolve_error + probe_definition) \<times> registry_client" where
  "resolve registry client metric_name channel revision_override registry_url_override =
     (if channel \<noteq> None \<and> revision_override \<noteq> None then (Inl ConflictingSource, client)
      else
        (let source = resolved_source channel revision_override registry_url_override
         in case cache client (metric_name, source) of
              Some d \<Rightarrow> (Inr d, client)
            | None \<Rightarrow>
                (case registry source metric_name of
                   None \<Rightarrow> (Inl DefinitionNotFound, client\<lparr>fetched := fetched client @ [source]\<rparr>)
                 | Some d \<Rightarrow>
                     (Inr d, client\<lparr>cache := (cache client)((metric_name, source) \<mapsto> d),
                                     fetched := fetched client @ [source]\<rparr>))))"

text \<open>
  Modelled from the spec: the value of a metric, a numeric vector (a scalar counter is a
  vector of one), a string or a boolean (sections 3 and 4.2).
\<close>

datatype metric_value = Numbers "int list" | Text string | Truth bool

text \<open>Modelled from the spec: the only failure of merge (section 4.2).\<close>

datatype merge_error = NotMergeable

text \<open>
  Modelled from the spec: the capability flag of a kind; string and boolean are the
  kinds that are not merge-legal (sections 4.2 and 9).
\<close>

definition mergeable :: "kind \<Rightarrow> bool" where
  "mergeable k = (case k of String_Kind \<Rightarrow> False | Boolean_Kind \<Rightarrow> False | _ \<Rightarrow> True)"

text \<open>
  Modelled from the spec: elementwise addition, the shorter vector padded with zeros on
  the right (section 4.2).
\<close>

fun padded_sum :: "int list \<Rightarrow> int list \<Rightarrow> int list" where
  "padded_sum [] ys = ys"
| "padded_sum xs [] = xs"
| "padded_sum (x # xs) (y # ys) = (x + y) # padded_sum xs ys"

text \<open>
  Modelled from the spec: \<^verbatim>\<open>merge(kind, a, b)\<close> of section 4.2 (the addition of two
  \<^verbatim>\<open>Scalar\<close> objects, absent from the sources). The flag is checked before any merge
  is attempted.
\<close>

definition merge :: "kind \<Rightarrow> metric_value \<Rightarrow> metric_value \<Rightarrow> merge_error + metric_value" where
  "merge k a b =
     (if mergeable k then
        (case a of
           Numbers xs \<Rightarrow>
             (case b of
                Numbers ys \<Rightarrow> Inr (Numbers (padded_sum xs ys))
              | _ \<Rightarrow> Inl NotMergeable)
         | _ \<Rightarrow> Inl NotMergeable)
      else Inl NotMergeable)"

section \<open>Example data\<close>

definition example_dimensions :: jsonb where
  "example_dimensions =
     [''metric'' \<mapsto> JString ''GC_MS'', ''label'' \<mapsto> JString [], ''child'' \<mapsto> JBool False]"


definition example_histograms :: histogram_service where
  "example_histograms metric vals revision =
     (if metric = ''GC_MS'' then Inr vals
      else if metric = ''BROKEN'' then Inl (Other_Exception ''ValueError'')
      else Inl KeyError)"

definition example_key :: aggregate_key where
  "example_key =
     \<lparr>key_submission_date = ''2015-05-27'', key_channel = ''nightly'', key_version = ''41'',
      key_build_id = ''20150601'', key_application = ''Firefox'', key_architecture = ''x86'',
      key_revision = ''abc'', key_os = ''Linux'', key_os_version = ''4''\<rparr>"

definition example_payload :: payload where
  "example_payload = \<lparr>payload_histogram = Some [1, 0, 0], payload_count = Some 5\<rparr>"

definition example_batch ::
  "(string \<times> string \<times> string \<times> string) \<times> (aggregate_key \<times> (metric_key \<times> payload) list) list" where
  "example_batch =
     ((''2015-05-27'', ''nightly'', ''41'', ''20150601''),
      [(example_key, [((''GC_MS'', [], False), example_payload)])])"

definition empty_store :: database where
  "empty_store = \<lparr>tables = Map.empty, buildid_update_dates = Map.empty\<rparr>"

definition example_key_dimensions :: jsonb where
  "example_key_dimensions =
     [''application'' \<mapsto> JString ''Firefox'', ''architecture'' \<mapsto> JString ''x86'',
      ''revision'' \<mapsto> JString ''abc'', ''os'' \<mapsto> JString ''Linux'',
      ''os_version'' \<mapsto> JString ''4'']"

definition committed_store :: database where
  "committed_store =
     \<lparr>tables = [''nightly_41_20150601'' \<mapsto>
        [\<lparr>dimensions = example_key_dimensions(''metric'' \<mapsto> JString ''GC_MS'',
            ''label'' \<mapsto> JString [], ''child'' \<mapsto> JBool False),
          histogram = [Some 1, Some 0, Some 0, Some 5]\<rparr>]],
      buildid_update_dates = [''nightly_41_20150601'' \<mapsto> [''2015-05-27'']]\<rparr>"


definition broken_batch ::
  "(string \<times> string \<times> string \<times> string) \<times> (aggregate_key \<times> (metric_key \<times> payload) list) list" where
  "broken_batch =
     ((''2015-05-27'', ''nightly'', ''41'', ''20150601''),
      [(example_key, [((''BROKEN'', [], False), example_payload),
                      ((''GC_MS'', [], False), example_payload)])])"

definition quoted_batch :: "aggregate_key \<times> (metric_key \<times> payload) list" where
  "quoted_batch =
     (example_key, [((''GC_MS'', ''don'' @ [CHR 0x27] @ ''t'', False), example_payload),
                    ((''GC_MS'', ''dont'', False), example_payload)])"

section \<open>Properties\<close>

text \<open>The definitions that the examples unfold.\<close>

lemmas accumulator_defs =
  aggregate_histograms_def aggregate_arrays_def array_length_def subscript_def coalesce_def
  bigint_add_def assign_def

lemmas identifier_defs =
  read_identifier_def ident_start_def ident_cont_def downcase_def store_given_name_def
  partition_identifier_def table_exists_def create_table_def upsert_table_def Let_def

lemmas coordinator_defs = identifier_defs
  upsert_aggregates_def was_buildid_processed_def upsert_aggregate_def
  complete_with_count_def get_complete_histogram_def execute_add_buildid_metric_def
  add_buildid_metric_def upsert_def metric_dimensions_def remove_quotes_def jsonb_contains_def
  revision_map_def

lemmas example_defs =
  example_histograms_def example_key_def example_payload_def example_batch_def
  empty_store_def example_key_dimensions_def committed_store_def

subsection \<open>The accumulator\<close>

lemma sint_range64: "- (2 ^ 63) \<le> sint (w :: 64 word)" "sint (w :: 64 word) < 2 ^ 63"
  using sint_ge [of w] sint_lt [of w] by simp_all

lemma bigint_add_zero: "bigint_add (Some 0) v = Inr v"
proof (cases v)
  case None
  then show ?thesis by (simp add: bigint_add_def)
next
  case (Some a)
  then show ?thesis using sint_range64 [of a] by (simp add: bigint_add_def)
qed





text \<open>
  With a second operand that is not empty the loop is the positional sum. On vectors
  without NULL it is then commutative; it is associative where the two inner sums
  exist; and zeros, no more of them than the first operand has positions, change
  nothing.
\<close>

lemma for_loop_positional_sum:
  "length r = k \<Longrightarrow> k \<le> length x \<Longrightarrow>
   for_loop x [Suc k ..< Suc (length x)] (r @ drop k acc) =
     (case positional_sum (drop k acc) (drop k x) of Inl e \<Rightarrow> Inl e | Inr t \<Rightarrow> Inr (r @ t))"
proof (induction "length x - k" arbitrary: k r)
  case 0
  then show ?case by simp
next
  case (Suc n)
  then have k: "k < length x" by simp
  have step: "[Suc k ..< Suc (length x)] = Suc k # [Suc (Suc k) ..< Suc (length x)]"
    using k by (simp add: upt_rec)
  have dx: "drop k x = x ! k # drop (Suc k) x" using k by (simp add: Cons_nth_drop_Suc)
  have subx: "subscript x (Suc k) = x ! k" using k by (simp add: subscript_def)
  show ?case
  proof (cases "k < length acc")
    case True
    then have da: "drop k acc = acc ! k # drop (Suc k) acc" by (simp add: Cons_nth_drop_Suc)
    have sub: "subscript (r @ drop k acc) (Suc k) = acc ! k"
      using True Suc.prems(1) by (simp add: subscript_def nth_append)
    have asg: "assign (r @ drop k acc) (Suc k) s = (r @ [s]) @ drop (Suc k) acc" for s
      using True Suc.prems(1) by (simp add: assign_def da list_update_append)
    have IH: "for_loop x [Suc (Suc k) ..< Suc (length x)] ((r @ [s]) @ drop (Suc k) acc) =
        (case positional_sum (drop (Suc k) acc) (drop (Suc k) x) of
           Inl e \<Rightarrow> Inl e | Inr t \<Rightarrow> Inr ((r @ [s]) @ t))" for s
      using Suc.hyps(2) Suc.prems k by (intro Suc.hyps(1)) simp_all
    show ?thesis
      unfolding step for_loop.simps sub subx asg IH
      by (simp add: da dx split: sum.split)
  next
    case False
    then have da: "drop k acc = []" "drop (Suc k) acc = []" by simp_all
    have sub: "subscript (r @ drop k acc) (Suc k) = None"
      using Suc.prems(1) by (simp add: subscript_def da)
    have asg: "assign (r @ drop k acc) (Suc k) s = (r @ [s]) @ drop (Suc k) acc" for s
      using Suc.prems(1) by (simp add: assign_def da)
    have IH: "for_loop x [Suc (Suc k) ..< Suc (length x)] ((r @ [s]) @ drop (Suc k) acc) =
        (case positional_sum (drop (Suc k) acc) (drop (Suc k) x) of
           Inl e \<Rightarrow> Inl e | Inr t \<Rightarrow> Inr ((r @ [s]) @ t))" for s
      using Suc.hyps(2) Suc.prems k by (intro Suc.hyps(1)) simp_all
    show ?thesis
      unfolding step for_loop.simps sub subx asg IH
      by (simp add: da dx coalesce_def split: sum.split)
  qed
qed

lemma aggregate_arrays_positional_sum:
  "x \<noteq> [] \<Longrightarrow> aggregate_arrays acc x = positional_sum acc x"
  using for_loop_positional_sum [of "[]" 0 x acc]
  by (simp add: aggregate_arrays_def array_length_def split: sum.split)

lemma positional_sum_Nil: "positional_sum [] x = Inr x"
  by (induction x) (simp_all add: bigint_add_zero)

lemma bigint_add_commute: "bigint_add a b = bigint_add b a"
  by (cases a; cases b) (simp_all add: bigint_add_def add.commute)

lemma positional_sum_commute:
  "None \<notin> set a \<Longrightarrow> None \<notin> set b \<Longrightarrow> positional_sum a b = positional_sum b a"
proof (induction a b rule: positional_sum.induct)
  case (1 acc)
  then show ?case by (simp add: positional_sum_Nil)
next
  case (2 v vs)
  then show ?case by (simp add: positional_sum_Nil bigint_add_zero)
next
  case (3 a as v vs)
  then obtain u w where "a = Some u" "v = Some w" by (cases a; cases v) auto
  with 3 show ?case
    by (simp add: coalesce_def bigint_add_commute [of "Some u" "Some w"] split: sum.split)
qed

lemma aggregate_arrays_commute:
  "a \<noteq> [] \<Longrightarrow> b \<noteq> [] \<Longrightarrow> None \<notin> set a \<Longrightarrow> None \<notin> set b \<Longrightarrow>
   aggregate_arrays a b = aggregate_arrays b a"
  by (simp add: aggregate_arrays_positional_sum positional_sum_commute)

lemma positional_sum_zeros:
  "None \<notin> set a \<Longrightarrow> n \<le> length a \<Longrightarrow> positional_sum a (replicate n (Some 0)) = Inr a"
proof (induction a arbitrary: n)
  case Nil
  then show ?case by simp
next
  case (Cons x a)
  then obtain u where "x = Some u" by (cases x) auto
  with Cons show ?case
    by (cases n) (simp_all add: coalesce_def bigint_add_commute [of _ "Some 0"] bigint_add_zero)
qed

lemma aggregate_arrays_zeros:
  "None \<notin> set a \<Longrightarrow> 0 < n \<Longrightarrow> n \<le> length a \<Longrightarrow>
   aggregate_arrays a (replicate n (Some 0)) = Inr a"
  by (simp add: aggregate_arrays_positional_sum positional_sum_zeros)

lemma sint_add_fits:
  fixes u w :: bigint
  assumes "- (2 ^ 63) \<le> sint u + sint w" and "sint u + sint w < 2 ^ 63"
  shows "sint (u + w) = sint u + sint w"
  using assms by (simp add: sint_word_ariths signed_take_bit_int_eq_self)

lemma bigint_add_Some:
  "bigint_add (Some u) (Some w) = Inr s \<Longrightarrow> s = Some (u + w) \<and> sint (u + w) = sint u + sint w"
  by (auto simp: bigint_add_def sint_add_fits split: if_splits)

lemma bigint_add_assoc:
  assumes "bigint_add (Some u) (Some w) = Inr uw" and "bigint_add (Some w) (Some t) = Inr wt"
  shows "bigint_add uw (Some t) = bigint_add (Some u) wt"
proof -
  from bigint_add_Some [OF assms(1)] bigint_add_Some [OF assms(2)]
  have "uw = Some (u + w)" "sint (u + w) = sint u + sint w"
    "wt = Some (w + t)" "sint (w + t) = sint w + sint t" by simp_all
  then show ?thesis by (simp add: bigint_add_def add.assoc)
qed

lemma positional_sum_assoc:
  "None \<notin> set a \<Longrightarrow> None \<notin> set b \<Longrightarrow> None \<notin> set c \<Longrightarrow>
   positional_sum a b = Inr ab \<Longrightarrow> positional_sum b c = Inr bc \<Longrightarrow>
   positional_sum ab c = positional_sum a bc"
proof (induction c arbitrary: a b ab bc)
  case Nil
  then show ?case by simp
next
  case (Cons z cs)
  show ?case
  proof (cases b)
    case Nil
    with Cons.prems show ?thesis by (simp add: positional_sum_Nil)
  next
    case b: (Cons y bs)
    show ?thesis
    proof (cases a)
      case Nil
      with Cons.prems show ?thesis by (simp add: positional_sum_Nil)
    next
      case a: (Cons x as)
      from Cons.prems a b obtain u w t where v: "x = Some u" "y = Some w" "z = Some t"
        by (cases x; cases y; cases z) auto
      from Cons.prems(4) a b v obtain uw ab' where
        uw: "bigint_add (Some u) (Some w) = Inr uw" and ab': "positional_sum as bs = Inr ab'"
        and ab: "ab = uw # ab'"
        by (auto simp: coalesce_def split: sum.splits)
      from Cons.prems(5) b v obtain wt bc' where
        wt: "bigint_add (Some w) (Some t) = Inr wt" and bc': "positional_sum bs cs = Inr bc'"
        and bc: "bc = wt # bc'"
        by (auto simp: coalesce_def split: sum.splits)
      have tail: "positional_sum ab' cs = positional_sum as bc'"
        using Cons.IH [OF _ _ _ ab' bc'] Cons.prems(1-3) a b by simp
      have head: "bigint_add uw (Some t) = bigint_add (Some u) wt"
        by (rule bigint_add_assoc [OF uw wt])
      from bigint_add_Some [OF uw] have "coalesce uw 0 = uw" by (simp add: coalesce_def)
      then show ?thesis
        by (simp add: ab bc a v coalesce_def head tail split: sum.split)
    qed
  qed
qed

lemma positional_sum_not_Nil:
  "positional_sum a b = Inr r \<Longrightarrow> a \<noteq> [] \<or> b \<noteq> [] \<Longrightarrow> r \<noteq> []"
  by (induction a b rule: positional_sum.induct) (auto split: sum.splits)

lemma aggregate_arrays_assoc:
  assumes "None \<notin> set a" "None \<notin> set b" "None \<notin> set c" and "b \<noteq> []" "c \<noteq> []"
    and ab: "aggregate_arrays a b = Inr ab" and bc: "aggregate_arrays b c = Inr bc"
  shows "aggregate_arrays ab c = aggregate_arrays a bc"
proof -
  from ab bc assms(4,5) have s: "positional_sum a b = Inr ab" "positional_sum b c = Inr bc"
    by (simp_all add: aggregate_arrays_positional_sum)
  from positional_sum_not_Nil [OF s(2)] assms(4) have "bc \<noteq> []" by simp
  with assms(5) positional_sum_assoc [OF assms(1-3) s] show ?thesis
    by (simp add: aggregate_arrays_positional_sum)
qed

text \<open>
  C4: the accumulator raises on an empty second operand instead of returning the first
  operand padded: \<^verbatim>\<open>aggregate_arrays('{1,2}', '{}')\<close> is an error.
\<close>

theorem aggregate_arrays_empty_operand_raises:
  "aggregate_arrays [Some 1, Some 2] [] = Inl Null_Loop_Bound"
  by (simp add: aggregate_arrays_def array_length_def)


text \<open>
  C3: the empty vector, the initial state of the aggregate, is a left identity of the
  accumulator but not a right one: with it as second operand the accumulator raises,
  so the two orders differ.
\<close>

theorem aggregate_arrays_not_commutative_at_empty:
  "aggregate_arrays [] [Some 1] = Inr [Some 1] \<and>
   aggregate_arrays [Some 1] [] = Inl Null_Loop_Bound"
  by (simp add: accumulator_defs)

subsection \<open>The upsert statement\<close>

lemma update_matching_no_match:
  "\<not> list_ex (\<lambda>t. jsonb_contains (dimensions t) d) ts \<Longrightarrow> update_matching ts h d = Inr ts"
  by (induction ts) simp_all



lemma update_matching_dimensions:
  "update_matching ts h d = Inr ts' \<Longrightarrow> map dimensions ts' = map dimensions ts"
  by (induction ts arbitrary: ts') (auto split: if_splits sum.splits)





lemma contains_refl: "jsonb_contains d d"
  by (simp add: jsonb_contains_def)



lemma add_buildid_metric_Inr:
  assumes "add_buildid_metric db c v b d h = Inr db'"
  shows "\<exists>n ts'. read_identifier (c @ ''_'' @ v @ ''_'' @ b) = Relation n \<and>
           n \<noteq> ''buildid_update_dates'' \<and>
           upsert (case tables db n of None \<Rightarrow> [] | Some rs \<Rightarrow> rs) h d = Inr ts' \<and>
           db' = db\<lparr>tables := (tables db)(n \<mapsto> ts')\<rparr> \<and>
           (table_exists db (c @ ''_'' @ v @ ''_'' @ b) \<or> tables db n = None)"
proof -
  define t where "t = c @ ''_'' @ v @ ''_'' @ b"
  have unfolded: "(if \<not> table_exists db t then
        (case create_table db t of Inl e \<Rightarrow> Inl e | Inr db1 \<Rightarrow> upsert_table db1 t h d)
      else upsert_table db t h d) = Inr db'"
    using assms unfolding add_buildid_metric_def Let_def t_def [symmetric] .
  then obtain n where n: "read_identifier t = Relation n"
    by (cases "read_identifier t")
       (auto simp: create_table_def upsert_table_def split: if_splits)
  show ?thesis
  proof (cases "table_exists db t")
    case True
    with unfolded n show ?thesis
      unfolding t_def [symmetric]
      by (auto simp: upsert_table_def split: if_splits option.splits sum.splits)
  next
    case False
    with unfolded n have free: "\<not> table_exists db n"
      and up: "upsert_table (db\<lparr>tables := (tables db)(n \<mapsto> [])\<rparr>) t h d = Inr db'"
      by (auto simp: create_table_def split: if_splits)
    from free have none: "tables db n = None" by (simp add: table_exists_def split: option.splits)
    from up n none show ?thesis
      unfolding t_def [symmetric]
      by (auto simp: upsert_table_def split: if_splits sum.splits)
  qed
qed

text \<open>
  The statement matches by containment. A write of a dimension set with fewer keys than
  the rows have is accumulated into every row that contains it, and inserts none; on
  dimension sets with the same keys, containment is equality.
\<close>

lemma fewer_keys_match_by_containment:
  "upsert
     [\<lparr>dimensions = [''metric'' \<mapsto> JString ''GC_MS'', ''label'' \<mapsto> JString ''a''],
       histogram = [Some 1]\<rparr>,
      \<lparr>dimensions = [''metric'' \<mapsto> JString ''GC_MS'', ''label'' \<mapsto> JString ''b''],
       histogram = [Some 2]\<rparr>]
     [Some 10] [''metric'' \<mapsto> JString ''GC_MS''] =
   Inr
     [\<lparr>dimensions = [''metric'' \<mapsto> JString ''GC_MS'', ''label'' \<mapsto> JString ''a''],
       histogram = [Some 11]\<rparr>,
      \<lparr>dimensions = [''metric'' \<mapsto> JString ''GC_MS'', ''label'' \<mapsto> JString ''b''],
       histogram = [Some 12]\<rparr>]"
  by (simp add: upsert_def jsonb_contains_def map_le_def accumulator_defs)





subsection \<open>The partition identifier\<close>

text \<open>
  What the store itself refuses. The text \<^verbatim>\<open>rel;ease_41_20150527\<close> cannot be parsed;
  a second write under \<^verbatim>\<open>Nightly\<close> finds no table of that spelling and creates
  \<^verbatim>\<open>nightly_41_20150527\<close> again; and \<^verbatim>\<open>buildid_update_dates\<close> is the ledger, which has
  no histogram.
\<close>

lemma semicolon_is_a_syntax_error:
  "add_buildid_metric db ''rel;ease'' ''41'' ''20150527'' d h = Inl Syntax_Error"
  by (simp add: add_buildid_metric_def identifier_defs)

lemma upper_case_is_created_twice:
  "add_buildid_metric empty_store ''Nightly'' ''41'' ''20150527'' example_dimensions [Some 1] =
     Inr \<lparr>tables = [''nightly_41_20150527'' \<mapsto>
            [\<lparr>dimensions = example_dimensions, histogram = [Some 1]\<rparr>]],
          buildid_update_dates = Map.empty\<rparr>"
  "add_buildid_metric
     \<lparr>tables = [''nightly_41_20150527'' \<mapsto>
        [\<lparr>dimensions = example_dimensions, histogram = [Some 1]\<rparr>]],
      buildid_update_dates = Map.empty\<rparr>
     ''Nightly'' ''41'' ''20150527'' example_dimensions [Some 1] =
     Inl (Duplicate_Table ''nightly_41_20150527'')"
  by (simp_all add: add_buildid_metric_def upsert_def empty_store_def identifier_defs)

lemma ledger_is_no_partition:
  "add_buildid_metric db ''buildid'' ''update'' ''dates'' d h = Inl (Undefined_Column ''histogram'')"
  by (simp add: add_buildid_metric_def identifier_defs)




subsection \<open>The ledger and resubmission\<close>

lemma add_buildid_metric_ledger:
  "add_buildid_metric db c v b d h = Inr db' \<Longrightarrow>
   buildid_update_dates db' = buildid_update_dates db"
  by (auto dest: add_buildid_metric_Inr)

lemma execute_add_buildid_metric_ledger:
  "execute_add_buildid_metric db c v b d h = Inr db' \<Longrightarrow>
   buildid_update_dates db' = buildid_update_dates db"
  by (auto simp: execute_add_buildid_metric_def split: sum.splits
      dest: add_buildid_metric_ledger)

lemma upsert_metrics_ledger:
  "upsert_metrics H c v b dims db ms = Inr db' \<Longrightarrow>
   buildid_update_dates db' = buildid_update_dates db"
proof (induction H c v b dims db ms rule: upsert_metrics.induct)
  case (1 H c v b dims db)
  then show ?case by simp
next
  case (2 H c v b dims db metric label child p rest)
  show ?case
  proof (cases "complete_with_count H c metric p")
    case (Inl e)
    with 2 show ?thesis by (simp add: Let_def split: if_splits)
  next
    case (Inr hist)
    with "2.prems" obtain db1 where
      db1: "execute_add_buildid_metric db c v b (metric_dimensions dims metric label child) hist = Inr db1"
      and rest: "upsert_metrics H c v b (metric_dimensions dims metric label child) db1 rest = Inr db'"
      by (auto simp: Let_def split: sum.splits)
    from "2.IH"(2) [OF refl Inr db1 rest] execute_add_buildid_metric_ledger [OF db1]
    show ?thesis by simp
  qed
qed

lemma upsert_aggregate_ledger:
  "upsert_aggregate H db a = Inr db' \<Longrightarrow> buildid_update_dates db' = buildid_update_dates db"
  by (auto simp: upsert_aggregate_def Let_def dest: upsert_metrics_ledger)

lemma upsert_each_ledger:
  "upsert_each H db as = Inr db' \<Longrightarrow> buildid_update_dates db' = buildid_update_dates db"
proof (induction as arbitrary: db)
  case Nil
  then show ?case by simp
next
  case (Cons a as)
  then obtain db1 where "upsert_aggregate H db a = Inr db1" "upsert_each H db1 as = Inr db'"
    by (auto split: sum.splits)
  with Cons.IH [of db1] upsert_aggregate_ledger [of H db a db1] show ?case by simp
qed

lemma was_buildid_processed_again:
  "was_buildid_processed db c v b s = (False, db1) \<Longrightarrow>
   buildid_update_dates db2 = buildid_update_dates db1 \<Longrightarrow>
   was_buildid_processed db2 c v b s = (True, db2)"
  by (auto simp: was_buildid_processed_def Let_def split: option.splits if_splits)

lemma was_buildid_processed_True:
  "was_buildid_processed db c v b s = (True, db1) \<Longrightarrow> db1 = db"
  by (auto simp: was_buildid_processed_def Let_def split: option.splits if_splits)

text \<open>
  C1: let a submission of a batch leave the store \<open>db1\<close>. Submitting the same batch
  again leaves the store \<open>db1\<close>; and if the first submission was committed, the second
  finds the date in the ledger and reports already-processed, with or without
  \<^verbatim>\<open>dry_run\<close>, having changed neither a row nor the ledger.
\<close>

theorem upsert_aggregates_idempotent:
  assumes first: "upsert_aggregates H db batch dry_run = (db1, r1)"
  shows "fst (upsert_aggregates H db1 batch dry_run) = db1 \<and>
         (r1 = Inr Committed \<longrightarrow>
            upsert_aggregates H db1 batch dry_run' = (db1, Inr AlreadyProcessed))"
proof -
  obtain s c v b where key: "fst batch = (s, c, v, b)" by (metis prod_cases4)
  obtain p dbl where wp: "was_buildid_processed db c v b s = (p, dbl)" by fastforce
  show ?thesis
  proof (cases p)
    case True
    with first key wp have "db1 = db" by (simp add: upsert_aggregates_def)
    with first key wp True show ?thesis by (simp add: upsert_aggregates_def)
  next
    case False
    show ?thesis
    proof (cases "upsert_each H dbl (snd batch)")
      case (Inl e)
      with first key wp False have "db1 = db" "r1 = Inl e" by (simp_all add: upsert_aggregates_def)
      with first show ?thesis by simp
    next
      case (Inr db2)
      show ?thesis
      proof (cases dry_run)
        case True
        with first key wp False Inr have "db1 = db" "r1 = Inr RolledBack"
          by (simp_all add: upsert_aggregates_def)
        with first show ?thesis by simp
      next
        case dr: False
        with first key wp False Inr have eq: "db1 = db2" "r1 = Inr Committed"
          by (simp_all add: upsert_aggregates_def)
        have "was_buildid_processed db2 c v b s = (True, db2)"
          using was_buildid_processed_again [of db c v b s dbl db2] wp False
            upsert_each_ledger [OF Inr] by simp
        then have "upsert_aggregates H db2 batch d = (db2, Inr AlreadyProcessed)" for d
          using key by (simp add: upsert_aggregates_def)
        with eq show ?thesis by simp
      qed
    qed
  qed
qed


text \<open>
  The theorem at the submission of one metric into an empty store: the first call
  commits one row and the ledger entry, the second reports already-processed.
\<close>

lemma first_submission:
  "upsert_aggregates example_histograms empty_store example_batch False =
     (committed_store, Inr Committed)"
  by (simp add: coordinator_defs example_defs)

theorem upsert_aggregates_idempotent_witness:
  "upsert_aggregates example_histograms empty_store example_batch False =
     (committed_store, Inr Committed) \<and>
   upsert_aggregates example_histograms committed_store example_batch False =
     (committed_store, Inr AlreadyProcessed)"
  using upsert_aggregates_idempotent
    [of example_histograms empty_store example_batch False committed_store "Inr Committed" False]
    first_submission
  by simp

subsection \<open>The loop over the metrics of an aggregate\<close>

lemma dom_metric_dimensions:
  "dom (metric_dimensions dims m l c) = dom dims \<union> {''metric'', ''label'', ''child''}"
  by (auto simp: metric_dimensions_def)

lemma metric_dimensions_again:
  "metric_dimensions (metric_dimensions dims m' l' c') m l c = metric_dimensions dims m l c"
  by (simp add: metric_dimensions_def fun_eq_iff)

lemma upsert_metrics_dimensions:
  assumes "\<And>m l c. metric_dimensions d1 m l c = metric_dimensions d2 m l c"
  shows "upsert_metrics H ch v b d1 db ms = upsert_metrics H ch v b d2 db ms"
proof (cases ms)
  case Nil
  then show ?thesis by simp
next
  case (Cons x rest)
  obtain m l c p where "x = ((m, l, c), p)" by (metis surj_pair)
  with Cons assms [of m l c] show ?thesis by simp
qed

lemma upsert_metrics_skip:
  assumes "complete_with_count H ch m p = Inl KeyError"
  shows "upsert_metrics H ch v b dims db (((m, l, c), p) # rest) =
         upsert_metrics H ch v b dims db rest"
  using assms upsert_metrics_dimensions [of "metric_dimensions dims m l c" dims H ch v b db rest]
  by (simp add: metric_dimensions_again)

lemma upsert_metrics_skip_anywhere:
  assumes "complete_with_count H ch m p = Inl KeyError"
  shows "upsert_metrics H ch v b dims db (before @ ((m, l, c), p) # rest) =
         upsert_metrics H ch v b dims db (before @ rest)"
proof (induction before arbitrary: dims db)
  case Nil
  show ?case using upsert_metrics_skip [OF assms] by simp
next
  case (Cons x before)
  obtain m' l' c' p' where x: "x = ((m', l', c'), p')" by (metis surj_pair)
  show ?case unfolding x by (simp add: Cons.IH Let_def split: sum.split)
qed

lemma upsert_metrics_raise:
  assumes "complete_with_count H ch m p = Inl e" and "e \<noteq> KeyError"
  shows "\<exists>e'. upsert_metrics H ch v b dims db (before @ ((m, l, c), p) # rest) = Inl e'"
proof (induction before arbitrary: dims db)
  case Nil
  show ?case using assms by simp
next
  case (Cons x before)
  obtain m' l' c' p' where x: "x = ((m', l', c'), p')" by (metis surj_pair)
  show ?case unfolding x using Cons.IH by (simp add: Let_def split: sum.split)
qed

text \<open>
  C7, as amended: when the expansion of one metric of an aggregate raises \<^verbatim>\<open>KeyError\<close>
  (the payload lacks a key, or the histogram library raises it), the result is that of
  the aggregate without this metric: the metric alone is skipped. When it raises any
  other exception, the call raises and the metrics after it are not merged.
\<close>

theorem upsert_aggregate_skips_key_error:
  "(complete_with_count H (key_channel k) metric p = Inl KeyError \<longrightarrow>
      upsert_aggregate H db (k, before @ ((metric, label, child), p) # rest) =
      upsert_aggregate H db (k, before @ rest)) \<and>
   (\<forall>e. complete_with_count H (key_channel k) metric p = Inl e \<and> e \<noteq> KeyError \<longrightarrow>
      (\<exists>e'. upsert_aggregate H db (k, before @ ((metric, label, child), p) # rest) = Inl e'))"
  using upsert_metrics_skip_anywhere upsert_metrics_raise
  by (simp add: upsert_aggregate_def)

text \<open>
  C7 as stated fails: the expansion of the first metric raises an exception other than
  \<^verbatim>\<open>KeyError\<close>; the submission leaves with this exception and an unchanged store,
  although the second metric alone is merged and committed.
\<close>

theorem non_key_error_aborts_batch:
  "complete_with_count example_histograms ''nightly'' ''BROKEN'' example_payload =
     Inl (Other_Exception ''ValueError'') \<and>
   upsert_aggregates example_histograms empty_store broken_batch False =
     (empty_store, Inl (Other_Exception ''ValueError'')) \<and>
   upsert_aggregates example_histograms empty_store example_batch False =
     (committed_store, Inr Committed)"
  by (simp add: coordinator_defs example_defs broken_batch_def)

text \<open>
  The theorem at an aggregate of two metrics: the first unknown to the histogram
  library (\<^verbatim>\<open>KeyError\<close>), or failing with another exception.
\<close>

theorem upsert_aggregate_skips_key_error_witness:
  "complete_with_count example_histograms (key_channel example_key) ''UNKNOWN'' example_payload =
     Inl KeyError \<and>
   upsert_aggregate example_histograms empty_store
     (example_key, [((''UNKNOWN'', ''x'', False), example_payload),
                    ((''GC_MS'', [], False), example_payload)]) =
   upsert_aggregate example_histograms empty_store
     (example_key, [((''GC_MS'', [], False), example_payload)]) \<and>
   complete_with_count example_histograms (key_channel example_key) ''BROKEN'' example_payload =
     Inl (Other_Exception ''ValueError'') \<and>
   upsert_aggregate example_histograms empty_store
     (example_key, [((''BROKEN'', ''x'', False), example_payload),
                    ((''GC_MS'', [], False), example_payload)]) =
   Inl (Other_Exception ''ValueError'')"
  using upsert_aggregate_skips_key_error
      [of example_histograms example_key "''UNKNOWN''" example_payload empty_store "[]"
          "''x''" False "[((''GC_MS'', [], False), example_payload)]"]
    upsert_aggregate_skips_key_error
      [of example_histograms example_key "''BROKEN''" example_payload empty_store "[]"
          "''x''" False "[((''GC_MS'', [], False), example_payload)]"]
  by (simp add: upsert_aggregate_def complete_with_count_def get_complete_histogram_def
      example_histograms_def example_payload_def example_key_def revision_map_def)

subsection \<open>Labels and their quotes\<close>

lemma list_ex_dimensions:
  "list_ex (\<lambda>t. jsonb_contains (dimensions t) d) ts =
   list_ex (\<lambda>x. jsonb_contains x d) (map dimensions ts)"
  by (induction ts) simp_all

lemma upsert_match_dimensions:
  "list_ex (\<lambda>t. jsonb_contains (dimensions t) d) ts \<Longrightarrow> upsert ts h d = Inr ts' \<Longrightarrow>
   map dimensions ts' = map dimensions ts"
  by (auto simp: upsert_def update_matching_dimensions split: sum.splits)

lemma upsert_has_match:
  assumes "upsert ts h d = Inr ts'"
  shows "list_ex (\<lambda>t. jsonb_contains (dimensions t) d) ts'"
proof (cases "list_ex (\<lambda>t. jsonb_contains (dimensions t) d) ts")
  case True
  then show ?thesis
    using upsert_match_dimensions [OF True assms] list_ex_dimensions [of d ts']
      list_ex_dimensions [of d ts] by simp
next
  case False
  with assms show ?thesis
    by (auto simp: upsert_def update_matching_no_match contains_refl)
qed

lemma execute_add_buildid_metric_Inr:
  assumes "execute_add_buildid_metric db c v b d hist = Inr db'"
  shows "\<exists>n h ts'. read_identifier (c @ ''_'' @ v @ ''_'' @ b) = Relation n \<and>
           n \<noteq> ''buildid_update_dates'' \<and>
           upsert (case tables db n of None \<Rightarrow> [] | Some rs \<Rightarrow> rs) h d = Inr ts' \<and>
           db' = db\<lparr>tables := (tables db)(n \<mapsto> ts')\<rparr> \<and>
           (table_exists db (c @ ''_'' @ v @ ''_'' @ b) \<or> tables db n = None)"
proof -
  from assms obtain h where "add_buildid_metric db c v b d h = Inr db'"
    by (auto simp: execute_add_buildid_metric_def split: sum.splits)
  from add_buildid_metric_Inr [OF this] show ?thesis by blast
qed

lemma read_ledger_name:
  "read_identifier ''buildid_update_dates'' = Relation ''buildid_update_dates''"
  by (simp add: read_identifier_def ident_start_def ident_cont_def downcase_def)

lemma upsert_metrics_hit:
  "complete_with_count H c m p = Inr h \<Longrightarrow>
   upsert_metrics H c v b dims db (((m, l, ch), p) # rest) =
     (case execute_add_buildid_metric db c v b (metric_dimensions dims m l ch) h of
        Inl e \<Rightarrow> Inl e
      | Inr db' \<Rightarrow> upsert_metrics H c v b (metric_dimensions dims m l ch) db' rest)"
  by (simp add: Let_def)

lemma same_label_same_row:
  assumes q: "remove_quotes l1 = remove_quotes l2"
    and h1: "complete_with_count H c metric p1 = Inr h1"
    and h2: "complete_with_count H c metric p2 = Inr h2"
    and one: "upsert_metrics H c v b dims db [((metric, l1, child), p1)] = Inr db1"
    and two: "upsert_metrics H c v b dims db
                [((metric, l1, child), p1), ((metric, l2, child), p2)] = Inr db2"
  shows "\<exists>ts1 ts2. tables db1 (c @ ''_'' @ v @ ''_'' @ b) = Some ts1 \<and>
           tables db2 (c @ ''_'' @ v @ ''_'' @ b) = Some ts2 \<and>
           map dimensions ts2 = map dimensions ts1"
proof -
  define t where "t = c @ ''_'' @ v @ ''_'' @ b"
  define D where "D = metric_dimensions dims metric l1 child"
  have D2: "metric_dimensions D metric l2 child = D"
    unfolding D_def metric_dimensions_again using q by (simp add: metric_dimensions_def)
  have e1: "execute_add_buildid_metric db c v b D h1 = Inr db1"
    using one unfolding upsert_metrics_hit [OF h1] D_def [symmetric]
    by (simp split: sum.splits)
  have e2: "execute_add_buildid_metric db1 c v b D h2 = Inr db2"
    using two unfolding upsert_metrics_hit [OF h1] upsert_metrics_hit [OF h2] D_def [symmetric] e1
    by (simp add: D2 split: sum.splits)
  from execute_add_buildid_metric_Inr [OF e1] obtain n w1 ts1 where
    n: "read_identifier t = Relation n" and ledger: "n \<noteq> ''buildid_update_dates''"
    and u1: "upsert (case tables db n of None \<Rightarrow> [] | Some rs \<Rightarrow> rs) w1 D = Inr ts1"
    and db1: "db1 = db\<lparr>tables := (tables db)(n \<mapsto> ts1)\<rparr>"
    unfolding t_def by blast
  have n1: "tables db1 n = Some ts1" unfolding db1 by simp
  from execute_add_buildid_metric_Inr [OF e2] n n1 obtain w2 ts2 where
    u2: "upsert ts1 w2 D = Inr ts2"
    and db2: "db2 = db1\<lparr>tables := (tables db1)(n \<mapsto> ts2)\<rparr>"
    and found: "table_exists db1 t"
    unfolding t_def [symmetric] by auto
  have same: "map dimensions ts2 = map dimensions ts1"
    using upsert_match_dimensions [OF upsert_has_match [OF u1] u2] .
  have "\<exists>ts1 ts2. tables db1 t = Some ts1 \<and> tables db2 t = Some ts2 \<and>
           map dimensions ts2 = map dimensions ts1"
  proof (cases "t = n")
    case True
    with n1 db2 same show ?thesis by simp
  next
    case False
    have "t \<noteq> ''buildid_update_dates''"
      using n ledger read_ledger_name by auto
    with found obtain x where "tables db1 t = Some x"
      by (auto simp: table_exists_def split: option.splits)
    moreover from this False have "tables db2 t = Some x" unfolding db2 by simp
    ultimately show ?thesis by simp
  qed
  then show ?thesis unfolding t_def .
qed

lemma filter_changes:
  assumes "x \<in> set xs"
  shows "filter (\<lambda>c. c \<noteq> x) xs \<noteq> xs"
proof
  assume unchanged: "filter (\<lambda>c. c \<noteq> x) xs = xs"
  from assms have "x \<in> set (filter (\<lambda>c. c \<noteq> x) xs)" by (simp only: unchanged)
  then show False by simp
qed

text \<open>
  C10: the label written into the dimension set is the submitted label without its
  single quotes, so it differs from a submitted label that holds a quote. Two labels
  that are equal once their quotes are removed give the same dimension set; when two
  such metrics of one aggregate are both merged, the second is accumulated into the row
  of the first: the partition has the same rows, by dimension set, as after the first
  alone.
\<close>

theorem label_quotes_removed:
  "metric_dimensions dims metric label child ''label'' =
     Some (JString (filter (\<lambda>c. c \<noteq> CHR 0x27) label)) \<and>
   (CHR 0x27 \<in> set label \<longrightarrow>
      metric_dimensions dims metric label child ''label'' \<noteq> Some (JString label)) \<and>
   (filter (\<lambda>c. c \<noteq> CHR 0x27) l1 = filter (\<lambda>c. c \<noteq> CHR 0x27) l2 \<longrightarrow>
      metric_dimensions dims metric l1 child = metric_dimensions dims metric l2 child \<and>
      (\<forall>h1 h2 db1 db2.
         complete_with_count H (key_channel k) metric p1 = Inr h1 \<and>
         complete_with_count H (key_channel k) metric p2 = Inr h2 \<and>
         upsert_aggregate H db (k, [((metric, l1, child), p1)]) = Inr db1 \<and>
         upsert_aggregate H db (k, [((metric, l1, child), p1), ((metric, l2, child), p2)]) = Inr db2
         \<longrightarrow>
         (\<exists>ts1 ts2.
            tables db1 (key_channel k @ ''_'' @ key_version k @ ''_'' @ key_build_id k) = Some ts1 \<and>
            tables db2 (key_channel k @ ''_'' @ key_version k @ ''_'' @ key_build_id k) = Some ts2 \<and>
            map dimensions ts2 = map dimensions ts1)))"
proof (intro conjI impI allI)
  show "metric_dimensions dims metric label child ''label'' =
     Some (JString (filter (\<lambda>c. c \<noteq> CHR 0x27) label))"
    by (simp add: metric_dimensions_def remove_quotes_def)
next
  assume "CHR 0x27 \<in> set label"
  then have "filter (\<lambda>c. c \<noteq> CHR 0x27) label \<noteq> label"
    by (rule filter_changes)
  then show "metric_dimensions dims metric label child ''label'' \<noteq> Some (JString label)"
    by (simp add: metric_dimensions_def remove_quotes_def)
next
  assume "filter (\<lambda>c. c \<noteq> CHR 0x27) l1 = filter (\<lambda>c. c \<noteq> CHR 0x27) l2"
  then show "metric_dimensions dims metric l1 child = metric_dimensions dims metric l2 child"
    by (simp add: metric_dimensions_def remove_quotes_def)
next
  fix h1 h2 db1 db2
  assume "filter (\<lambda>c. c \<noteq> CHR 0x27) l1 = filter (\<lambda>c. c \<noteq> CHR 0x27) l2"
    and "complete_with_count H (key_channel k) metric p1 = Inr h1 \<and>
         complete_with_count H (key_channel k) metric p2 = Inr h2 \<and>
         upsert_aggregate H db (k, [((metric, l1, child), p1)]) = Inr db1 \<and>
         upsert_aggregate H db (k, [((metric, l1, child), p1), ((metric, l2, child), p2)]) = Inr db2"
  then show "\<exists>ts1 ts2.
            tables db1 (key_channel k @ ''_'' @ key_version k @ ''_'' @ key_build_id k) = Some ts1 \<and>
            tables db2 (key_channel k @ ''_'' @ key_version k @ ''_'' @ key_build_id k) = Some ts2 \<and>
            map dimensions ts2 = map dimensions ts1"
    using same_label_same_row [of l1 l2 H "key_channel k" metric p1 h1 p2 h2 "key_version k"
        "key_build_id k" _ db child db1 db2]
    unfolding upsert_aggregate_def remove_quotes_def Let_def fst_conv snd_conv
    by blast
qed

text \<open>
  The theorem at the labels \<^verbatim>\<open>don't\<close> and \<^verbatim>\<open>dont\<close> of one metric: one row, labelled
  \<^verbatim>\<open>dont\<close>, holding the sum of both payloads.
\<close>

theorem label_quotes_removed_witness:
  "CHR 0x27 \<in> set (''don'' @ [CHR 0x27] @ ''t'') \<and>
   filter (\<lambda>c. c \<noteq> CHR 0x27) (''don'' @ [CHR 0x27] @ ''t'') = filter (\<lambda>c. c \<noteq> CHR 0x27) ''dont'' \<and>
   metric_dimensions example_key_dimensions ''GC_MS'' (''don'' @ [CHR 0x27] @ ''t'') False ''label'' =
     Some (JString ''dont'') \<and>
   upsert_aggregate example_histograms empty_store quoted_batch =
     Inr \<lparr>tables = [''nightly_41_20150601'' \<mapsto>
            [\<lparr>dimensions = example_key_dimensions(''metric'' \<mapsto> JString ''GC_MS'',
                ''label'' \<mapsto> JString ''dont'', ''child'' \<mapsto> JBool False),
              histogram = [Some 2, Some 0, Some 0, Some 10]\<rparr>]],
          buildid_update_dates = Map.empty\<rparr>"
  using label_quotes_removed
    [of example_key_dimensions "''GC_MS''" "''don'' @ [CHR 0x27] @ ''t''" False
        "''don'' @ [CHR 0x27] @ ''t''" "''dont''" example_histograms example_key
        example_payload example_payload empty_store]
  by (simp add: coordinator_defs example_defs quoted_batch_def accumulator_defs)

subsection \<open>The revision of a channel\<close>

text \<open>
  C6: for the unknown channel \<^verbatim>\<open>esr\<close> the histogram library is called with the
  revision \<^verbatim>\<open>"nightly"\<close>, the default of \<^verbatim>\<open>_revision_map.get\<close>, and not with the
  locator that the channel \<^verbatim>\<open>nightly\<close> resolves to.
\<close>

theorem unknown_channel_gets_literal_nightly:
  "get_complete_histogram H ''esr'' ''GC_MS'' vals = H ''GC_MS'' vals ''nightly'' \<and>
   get_complete_histogram H ''nightly'' ''GC_MS'' vals =
     H ''GC_MS'' vals ''https://hg.mozilla.org/mozilla-central/rev/tip''"
  by (simp add: get_complete_histogram_def revision_map_def)

subsection \<open>Probe resolution and typed merge\<close>

text \<open>
  C8: a request with both a channel and a revision fails with \<open>ConflictingSource\<close> and
  leaves the client as it was: nothing is fetched, nothing is cached.
\<close>

theorem resolve_conflicting_source:
  "resolve registry client metric_name (Some channel) (Some revision) registry_url_override =
     (Inl ConflictingSource, client)"
  by (simp add: resolve_def)

text \<open>
  C9: a merge at the kind string or boolean fails with \<open>NotMergeable\<close> whatever the
  two values are, and a merge that yields a value is at neither kind.
\<close>

theorem merge_not_mergeable:
  "merge String_Kind a b = Inl NotMergeable \<and> merge Boolean_Kind a b = Inl NotMergeable \<and>
   (\<forall>v. merge k a b = Inr v \<longrightarrow> k \<noteq> String_Kind \<and> k \<noteq> Boolean_Kind)"
  by (auto simp: merge_def mergeable_def)

text \<open>The theorem at the values of the tests: 8 + 8 merges, strings and booleans do not.\<close>

theorem merge_not_mergeable_witness:
  "merge Unsigned_Integer (Numbers [8]) (Numbers [8]) = Inr (Numbers [16]) \<and>
   Unsigned_Integer \<noteq> String_Kind \<and> Unsigned_Integer \<noteq> Boolean_Kind \<and>
   merge String_Kind (Text ''string'') (Text ''string'') = Inl NotMergeable \<and>
   merge Boolean_Kind (Truth True) (Truth True) = Inl NotMergeable"
  using merge_not_mergeable [of "Text ''string''" "Text ''string''" Unsigned_Integer]
    merge_not_mergeable [of "Truth True" "Truth True" Unsigned_Integer]
    merge_not_mergeable [of "Numbers [8]" "Numbers [8]" Unsigned_Integer]
  by (simp add: merge_def mergeable_def)

end
